theory Spec2Isabelle
  imports Complex_Main "HOL-Library.Char_ord" "HOL-Library.List_Lexorder"
    "HOL-Library.Log_Nat"
begin

section \<open>Conversion of cell samples into ARCADE records\<close>

text \<open>
  A shallow embedding of \<^verbatim>\<open>ConvertARCADE\<close>
  (\<^verbatim>\<open>src/cell_abm_pipeline/initial_conditions/convert_arcade.py\<close>).

  Conventions of the embedding:
  \<^item> Python numbers (ints and floats) are exact rationals (\<^typ>\<open>rat\<close>). The rounding
    of binary floating point is modelled where it decides an integer of the transformed
    grid (the quotient cast to \<^verbatim>\<open>int32\<close>), and not elsewhere.
  \<^item> A raised exception is a value \<open>Inl e\<close> of the result type \<open>error + 'a\<close>.
  \<^item> A pandas data frame of samples is a list of rows in table order together with a
    flag telling whether the frame carries the column \<^verbatim>\<open>region\<close>.
  \<^item> A float that is not a finite number (NaN, infinity) is the value \<open>None\<close> of
    \<^typ>\<open>rat option\<close>.
\<close>

subsection \<open>Exceptions and Python primitives\<close>

datatype error = KeyError string | ZeroDivisionError | IndexError | ValueError

text \<open>\<^verbatim>\<open>xs[i]\<close> on a Python list: a negative index counts from the end.\<close>

definition getitem :: "'a list \<Rightarrow> int \<Rightarrow> error + 'a" where
  "getitem xs i =
     (let j = (if i < 0 then i + int (length xs) else i)
      in if j < 0 \<or> int (length xs) \<le> j then Inl IndexError else Inr (xs ! nat j))"

text \<open>\<^verbatim>\<open>d[k]\<close> on a Python dict.\<close>

definition lookup :: "(string \<rightharpoonup> 'v) \<Rightarrow> string \<Rightarrow> error + 'v" where
  "lookup d k = (case d k of None \<Rightarrow> Inl (KeyError k) | Some v \<Rightarrow> Inr v)"

text \<open>\<^verbatim>\<open>int(v)\<close> on a finite number: rounding towards zero.\<close>

definition py_int :: "rat \<Rightarrow> int" where
  "py_int q = (if q < 0 then - \<lfloor>- q\<rfloor> else \<lfloor>q\<rfloor>)"

subsection \<open>The state and phase of a cell: \<^verbatim>\<open>get_cell_phase\<close>\<close>

definition fractions :: "rat list" where
  "fractions = [0.25, 1, 1.124, 1.726, 1.969]"

definition states :: "string list" where
  "states = [''APOPTOTIC'', ''APOPTOTIC'', ''PROLIFERATIVE'', ''PROLIFERATIVE'',
     ''PROLIFERATIVE'']"

definition phases :: "string list" where
  "phases = [''LATE'', ''EARLY'', ''G1'', ''S'', ''G2'']"

text \<open>
  \<^verbatim>\<open>next((ind for ind, thresh in enumerate(thresholds) if thresh > volume), -1)\<close>:
  the position of the first threshold above the volume, \<open>-1\<close> when there is none.
\<close>

fun next_index :: "nat \<Rightarrow> rat list \<Rightarrow> rat \<Rightarrow> int" where
  "next_index ind [] volume = -1"
| "next_index ind (thresh # thresholds) volume =
     (if thresh > volume then int ind else next_index (Suc ind) thresholds volume)"

definition get_cell_phase :: "rat \<Rightarrow> rat \<Rightarrow> error + (string \<times> string)" where
  "get_cell_phase volume critical_volume =
     (let thresholds = map (\<lambda>fraction. fraction * critical_volume) fractions;
          index = next_index 0 thresholds volume
      in case getitem states index of
           Inl e \<Rightarrow> Inl e
         | Inr state \<Rightarrow>
             (case getitem phases index of
                Inl e \<Rightarrow> Inl e
              | Inr p \<Rightarrow> Inr (state, state @ ''_'' @ p)))"

text \<open>
  The default named thresholds of the flow
  (\<^verbatim>\<open>STATE_THRESHOLDS\<close> in \<^verbatim>\<open>flows/initialize_arcade_simulations.py\<close>, the default
  of the parameter \<^verbatim>\<open>state_thresholds\<close>), in the order of the dictionary.
\<close>

definition STATE_THRESHOLDS :: "(string \<times> rat) list" where
  "STATE_THRESHOLDS =
     [(''APOPTOTIC_LATE'', 0.25), (''APOPTOTIC_EARLY'', 0.90), (''PROLIFERATIVE_G1'', 1.124),
      (''PROLIFERATIVE_S'', 1.726), (''PROLIFERATIVE_G2'', 1.969), (''PROLIFERATIVE_M'', 2)]"

subsection \<open>Sample tables\<close>

datatype axis = X | Y | Z

text \<open>
  One row of a sample table: the columns \<^verbatim>\<open>id\<close>, \<^verbatim>\<open>x\<close>, \<^verbatim>\<open>y\<close>, \<^verbatim>\<open>z\<close> and
  \<^verbatim>\<open>region\<close>. The last one is read only in a frame whose \<open>has_region\<close> is set
  (\<^verbatim>\<open>"region" in samples.columns\<close>).
\<close>

record row =
  col_id :: int
  col_x :: rat
  col_y :: rat
  col_z :: rat
  col_region :: string

record frame =
  has_region :: bool
  rows :: "row list"

fun coord :: "axis \<Rightarrow> row \<Rightarrow> rat" where
  "coord X r = col_x r"
| "coord Y r = col_y r"
| "coord Z r = col_z r"

fun set_coord :: "axis \<Rightarrow> rat \<Rightarrow> row \<Rightarrow> row" where
  "set_coord X v r = r\<lparr>col_x := v\<rparr>"
| "set_coord Y v r = r\<lparr>col_y := v\<rparr>"
| "set_coord Z v r = r\<lparr>col_z := v\<rparr>"

definition column :: "axis \<Rightarrow> frame \<Rightarrow> rat list" where
  "column i df = map (coord i) (rows df)"

text \<open>
  \<^verbatim>\<open>Series.min()\<close>, \<^verbatim>\<open>Series.max()\<close> and \<^verbatim>\<open>Series.mean()\<close>: NaN (\<open>None\<close>) on an
  empty column.
\<close>

definition series_min :: "rat list \<Rightarrow> rat option" where
  "series_min vs = (case vs of [] \<Rightarrow> None | v # ws \<Rightarrow> Some (fold min ws v))"

definition series_max :: "rat list \<Rightarrow> rat option" where
  "series_max vs = (case vs of [] \<Rightarrow> None | v # ws \<Rightarrow> Some (fold max ws v))"

definition series_mean :: "rat list \<Rightarrow> rat option" where
  "series_mean vs = (if vs = [] then None else Some (sum_list vs / of_nat (length vs)))"

text \<open>\<^verbatim>\<open>Series.unique()\<close>: the distinct values, each at its first occurrence.\<close>

definition unique :: "'a list \<Rightarrow> 'a list" where
  "unique vs = rev (remdups (rev vs))"

text \<open>
  \<^verbatim>\<open>samples.groupby(key)\<close>, iterated: pandas sorts the group keys (\<^verbatim>\<open>sort=True\<close> is
  the default) and keeps the rows of a group in table order. Strings are ordered
  lexicographically by character code, as Python orders them.
\<close>

definition groupby :: "(row \<Rightarrow> 'k::linorder) \<Rightarrow> row list \<Rightarrow> ('k \<times> row list) list" where
  "groupby key rs =
     map (\<lambda>k. (k, filter (\<lambda>r. key r = k) rs)) (sort (unique (map key rs)))"

text \<open>
  \<^verbatim>\<open>samples.groupby(key).filter(func)\<close>: the rows of the groups on which \<^verbatim>\<open>func\<close>
  holds, in table order.
\<close>

definition groupby_filter ::
  "(row \<Rightarrow> 'k::linorder) \<Rightarrow> (row list \<Rightarrow> bool) \<Rightarrow> row list \<Rightarrow> row list" where
  "groupby_filter key func rs =
     (let kept = map fst (filter (\<lambda>(k, group). func group) (groupby key rs))
      in filter (\<lambda>r. key r \<in> set kept) rs)"

subsection \<open>The coordinate transform\<close>

text \<open>
  Modelled from the spec: \<^verbatim>\<open>ProcessSamples.get_step_size\<close>, whose module
  \<^verbatim>\<open>process_samples.py\<close> is not among the sources. The spec describes the step of an
  axis as the smallest positive coordinate delta observed on that axis, and as one
  resolution unit on a degenerate axis (all samples equal).
\<close>

definition get_step_size :: "rat list \<Rightarrow> rat" where
  "get_step_size arr =
     (case concat (map (\<lambda>a. map (\<lambda>b. b - a) (filter (\<lambda>b. a < b) arr)) arr) of
        [] \<Rightarrow> 1
      | d # ds \<Rightarrow> fold min ds d)"

text \<open>
  \<^verbatim>\<open>calculate_sample_transform\<close>: steps, offsets and bounds per axis. On an empty
  frame every minimum and maximum is NaN, and so is every offset and bound: the result
  is \<open>None\<close>.
\<close>

definition calculate_sample_transform ::
  "frame \<Rightarrow> (axis \<Rightarrow> int) \<Rightarrow> ((axis \<Rightarrow> rat) \<times> (axis \<Rightarrow> rat) \<times> (axis \<Rightarrow> rat)) option" where
  "calculate_sample_transform df margins =
     (if rows df = [] then None
      else
        let steps = (\<lambda>i. get_step_size (column i df));
            mins = (\<lambda>i. the (series_min (column i df)));
            maxs = (\<lambda>i. the (series_max (column i df)));
            offsets = (\<lambda>i. - (mins i / steps i) + of_int (margins i) + 1);
            bounds = (\<lambda>i. (maxs i - mins i) / steps i + 2 * of_int (margins i) + 3)
        in Some (steps, offsets, bounds))"

subsection \<open>Binary floating point\<close>

text \<open>
  The quotient that \<^verbatim>\<open>transform_sample_voxels\<close> casts to an integer is an IEEE 754
  double: there the rounding of the division decides which integer comes out, and it is
  modelled. \<open>float64 q\<close> is the double nearest to the rational \<open>q\<close> (ties to the even
  mantissa, subnormals below \<open>2 ^ -1022\<close>), and \<open>None\<close> when \<open>q\<close> rounds to infinity
  (a rounded magnitude of \<open>2 ^ 1024\<close> or more).
\<close>

definition pow2 :: "int \<Rightarrow> rat" where
  "pow2 e = (if 0 \<le> e then 2 ^ nat e else 1 / 2 ^ nat (- e))"

definition round_half_even :: "rat \<Rightarrow> int" where
  "round_half_even x =
     (let f = \<lfloor>x\<rfloor>; d = x - of_int f
      in if d < 1 / 2 then f else if 1 / 2 < d then f + 1 else if even f then f else f + 1)"

text \<open>The exponent \<open>e\<close> with \<open>2 ^ e \<le> a < 2 ^ (e + 1)\<close> of a positive rational.\<close>

definition binade :: "rat \<Rightarrow> int" where
  "binade a =
     (let (n, d) = quotient_of a; e = bitlen n - bitlen d
      in if pow2 e \<le> a then e else e - 1)"

definition float64 :: "rat \<Rightarrow> rat option" where
  "float64 q =
     (if q = 0 then Some 0
      else
        let a = \<bar>q\<bar>;
            e = binade a;
            ulp = pow2 (max e (- 1022) - 52);
            m = round_half_even (a / ulp)
        in if 1023 < e \<or> (e = 1023 \<and> 2 ^ 53 \<le> m) then None
           else Some (if q < 0 then - (of_int m * ulp) else of_int m * ulp))"

text \<open>
  \<^verbatim>\<open>.astype("int32")\<close> on a finite float: rounding towards zero. numpy does not raise
  on a value outside the range of a signed 32-bit integer; the model takes the truncated
  value wrapped to 32 bits in two's complement.
\<close>

definition astype_int32 :: "rat \<Rightarrow> int" where
  "astype_int32 q = (py_int q + 2 ^ 31) mod 2 ^ 32 - 2 ^ 31"

text \<open>
  One value of \<^verbatim>\<open>df[i].divide(steps[i]).astype("int32") + offsets[i]\<close>. The operands
  of the division are doubles and so is the quotient. A zero step or an overflow makes
  the quotient infinite or NaN, which pandas refuses to cast to an integer (a
  \<^verbatim>\<open>ValueError\<close>).
\<close>

definition transform_value :: "rat \<Rightarrow> rat \<Rightarrow> rat \<Rightarrow> error + rat" where
  "transform_value step offset v =
     (case (float64 v, float64 step) of
        (Some a, Some b) \<Rightarrow>
          (if b = 0 then Inl ValueError
           else case float64 (a / b) of
                  None \<Rightarrow> Inl ValueError
                | Some q \<Rightarrow> Inr (of_int (astype_int32 q) + offset))
      | _ \<Rightarrow> Inl ValueError)"

fun transform_rows ::
  "axis \<Rightarrow> rat \<Rightarrow> rat \<Rightarrow> row list \<Rightarrow> error + row list" where
  "transform_rows i step offset [] = Inr []"
| "transform_rows i step offset (r # rs) =
     (case transform_value step offset (coord i r) of
        Inl e \<Rightarrow> Inl e
      | Inr v \<Rightarrow>
          (case transform_rows i step offset rs of
             Inl e \<Rightarrow> Inl e
           | Inr rs' \<Rightarrow> Inr (set_coord i v r # rs')))"

text \<open>\<^verbatim>\<open>transform_sample_voxels\<close>: the loop over the axes x, y, z in this order.\<close>

definition transform_sample_voxels ::
  "frame \<Rightarrow> (axis \<Rightarrow> rat) \<Rightarrow> (axis \<Rightarrow> rat) \<Rightarrow> error + frame" where
  "transform_sample_voxels df steps offsets =
     (case transform_rows X (steps X) (offsets X) (rows df) of
        Inl e \<Rightarrow> Inl e
      | Inr rx \<Rightarrow>
          (case transform_rows Y (steps Y) (offsets Y) rx of
             Inl e \<Rightarrow> Inl e
           | Inr ry \<Rightarrow>
               (case transform_rows Z (steps Z) (offsets Z) ry of
                  Inl e \<Rightarrow> Inl e
                | Inr rz \<Rightarrow> Inr (df\<lparr>rows := rz\<rparr>))))"

subsection \<open>Validation of region coverage: \<^verbatim>\<open>filter_valid_samples\<close>\<close>

definition filter_valid_samples :: "frame \<Rightarrow> frame" where
  "filter_valid_samples samples =
     (if has_region samples
      then samples\<lparr>rows :=
             groupby_filter col_id (\<lambda>x. length (unique (map col_region x)) > 1)
               (rows samples)\<rparr>
      else samples)"

subsection \<open>Critical values: \<^verbatim>\<open>get_cell_criticals\<close>\<close>

text \<open>
  The statistic tables that the source imports from \<^verbatim>\<open>__config__\<close>, a module that
  is not among the sources. They are dictionaries from region names to numbers and are
  a parameter of the model.
\<close>

record config =
  VOLUME_MU :: "string \<rightharpoonup> rat"
  VOLUME_SIGMA :: "string \<rightharpoonup> rat"
  CRITICAL_VOLUME_MU :: "string \<rightharpoonup> rat"
  CRITICAL_VOLUME_SIGMA :: "string \<rightharpoonup> rat"
  HEIGHT_MU :: "string \<rightharpoonup> rat"
  HEIGHT_SIGMA :: "string \<rightharpoonup> rat"
  CRITICAL_HEIGHT_MU :: "string \<rightharpoonup> rat"
  CRITICAL_HEIGHT_SIGMA :: "string \<rightharpoonup> rat"

definition bind :: "error + 'a \<Rightarrow> ('a \<Rightarrow> error + 'b) \<Rightarrow> error + 'b" where
  "bind m f = (case m of Inl e \<Rightarrow> Inl e | Inr v \<Rightarrow> f v)"

text \<open>
  Division of native Python numbers raises on a zero divisor; the volume is one
  (\<^verbatim>\<open>len(samples)\<close> or an entry of the reference dictionary).
\<close>

definition py_div :: "rat \<Rightarrow> rat \<Rightarrow> error + rat" where
  "py_div a b = (if b = 0 then Inl ZeroDivisionError else Inr (a / b))"

text \<open>
  The height \<^verbatim>\<open>samples.z.max() - samples.z.min()\<close> is a numpy scalar: NaN on an
  empty frame, and its division by zero gives infinity or NaN instead of raising.
\<close>

definition np_div :: "rat option \<Rightarrow> rat \<Rightarrow> rat option" where
  "np_div a b = (case a of None \<Rightarrow> None | Some v \<Rightarrow> if b = 0 then None else Some (v / b))"

definition get_cell_criticals ::
  "config \<Rightarrow> frame \<Rightarrow> (string \<rightharpoonup> rat) \<Rightarrow> string \<Rightarrow> error + (rat \<times> rat option)" where
  "get_cell_criticals cfg samples reference region =
     (let reference_key = (if region = ''DEFAULT'' then ''volume'' else ''volume.'' @ region);
          volume = (case reference reference_key of
                      Some v \<Rightarrow> v
                    | None \<Rightarrow> of_nat (length (rows samples)));
          height = (case (series_max (column Z samples), series_min (column Z samples)) of
                      (Some hi, Some lo) \<Rightarrow> Some (hi - lo)
                    | _ \<Rightarrow> None)
      in
        bind (lookup (VOLUME_MU cfg) region) (\<lambda>volume_mu.
        bind (lookup (VOLUME_SIGMA cfg) region) (\<lambda>volume_sigma.
        bind (py_div (volume - volume_mu) volume_sigma) (\<lambda>z_volume.
        bind (lookup (CRITICAL_VOLUME_SIGMA cfg) region) (\<lambda>critical_volume_sigma.
        bind (lookup (CRITICAL_VOLUME_MU cfg) region) (\<lambda>critical_volume_mu.
        let critical_volume = z_volume * critical_volume_sigma + critical_volume_mu in
        bind (lookup (HEIGHT_MU cfg) region) (\<lambda>height_mu.
        bind (lookup (HEIGHT_SIGMA cfg) region) (\<lambda>height_sigma.
        let z_height = np_div (map_option (\<lambda>h. h - height_mu) height) height_sigma in
        bind (lookup (CRITICAL_HEIGHT_SIGMA cfg) region) (\<lambda>critical_height_sigma.
        bind (lookup (CRITICAL_HEIGHT_MU cfg) region) (\<lambda>critical_height_mu.
        let critical_height =
              map_option (\<lambda>z. z * critical_height_sigma + critical_height_mu) z_height
        in Inr (critical_volume, critical_height)))))))))))"

subsection \<open>Cell records: \<^verbatim>\<open>convert_to_cell\<close>\<close>

record region_record =
  region_name :: string
  region_voxels :: nat
  region_criticals :: "rat \<times> rat option"

record cell =
  cell_id :: nat
  cell_parent :: int
  cell_pop :: int
  cell_age :: int
  cell_divisions :: int
  cell_state :: string
  cell_phase :: string
  cell_voxels :: nat
  cell_criticals :: "rat \<times> rat option"
  cell_regions :: "region_record list option"

fun regions_loop ::
  "config \<Rightarrow> (string \<rightharpoonup> rat) \<Rightarrow> (string \<times> row list) list \<Rightarrow> error + region_record list" where
  "regions_loop cfg reference [] = Inr []"
| "regions_loop cfg reference ((region, grp) # groups) =
     bind (get_cell_criticals cfg \<lparr>has_region = True, rows = grp\<rparr> reference region)
       (\<lambda>criticals.
     bind (regions_loop cfg reference groups) (\<lambda>regions.
       Inr (\<lparr>region_name = region, region_voxels = length grp,
              region_criticals = criticals\<rparr> # regions)))"

definition get_cell_regions ::
  "config \<Rightarrow> frame \<Rightarrow> (string \<rightharpoonup> rat) \<Rightarrow> error + region_record list" where
  "get_cell_regions cfg samples reference =
     regions_loop cfg reference (groupby col_region (rows samples))"

definition convert_to_cell ::
  "config \<Rightarrow> nat \<Rightarrow> frame \<Rightarrow> (string \<rightharpoonup> rat) \<Rightarrow> error + cell" where
  "convert_to_cell cfg cid samples reference =
     (let volume = length (rows samples) in
      bind (get_cell_criticals cfg samples reference ''DEFAULT'') (\<lambda>criticals.
      bind (get_cell_phase (of_nat volume) (fst criticals)) (\<lambda>(state, phase).
      let cell = \<lparr>cell_id = cid, cell_parent = 0, cell_pop = 1, cell_age = 0,
                   cell_divisions = 0, cell_state = state, cell_phase = phase,
                   cell_voxels = volume, cell_criticals = criticals,
                   cell_regions = None\<rparr>
      in if has_region samples
         then bind (get_cell_regions cfg samples reference) (\<lambda>regions.
                Inr (cell\<lparr>cell_regions := Some regions\<rparr>))
         else Inr cell)))"

subsection \<open>Location records: \<^verbatim>\<open>convert_to_location\<close>\<close>

record location_entry =
  entry_region :: string
  entry_voxels :: "(int \<times> int \<times> int) list"

record location =
  location_id :: nat
  location_center :: "int \<times> int \<times> int"
  location_list :: "location_entry list"

text \<open>\<^verbatim>\<open>int(samples[v].mean())\<close>: \<^verbatim>\<open>int\<close> raises a ValueError on NaN.\<close>

definition int_mean :: "rat list \<Rightarrow> error + int" where
  "int_mean vs = (case series_mean vs of None \<Rightarrow> Inl ValueError | Some m \<Rightarrow> Inr (py_int m))"

definition make_location_center :: "frame \<Rightarrow> error + (int \<times> int \<times> int)" where
  "make_location_center samples =
     bind (int_mean (column X samples)) (\<lambda>cx.
     bind (int_mean (column Y samples)) (\<lambda>cy.
     bind (int_mean (column Z samples)) (\<lambda>cz. Inr (cx, cy, cz))))"

definition make_location_voxels :: "row list \<Rightarrow> (int \<times> int \<times> int) list" where
  "make_location_voxels rs = map (\<lambda>r. (py_int (col_x r), py_int (col_y r), py_int (col_z r))) rs"

definition convert_to_location :: "nat \<Rightarrow> frame \<Rightarrow> error + location" where
  "convert_to_location cid samples =
     bind (make_location_center samples) (\<lambda>center.
     let location =
           (if \<not> has_region samples
            then [\<lparr>entry_region = ''UNDEFINED'',
                    entry_voxels = make_location_voxels (rows samples)\<rparr>]
            else map (\<lambda>(region, group).
                        \<lparr>entry_region = region, entry_voxels = make_location_voxels group\<rparr>)
                   (groupby col_region (rows samples)))
     in Inr \<lparr>location_id = cid, location_center = center, location_list = location\<rparr>)"

subsection \<open>The conversion loop of \<^verbatim>\<open>convert_arcade\<close>\<close>

text \<open>
  The loop \<^verbatim>\<open>for i, (sample_id, group) in enumerate(samples_by_id)\<close>. The argument
  \<open>reference\<close> gives the dictionary \<^verbatim>\<open>sample_reference\<close> of a sample id (empty when
  the reference table has no row for it); \<open>i\<close> is the counter of \<^verbatim>\<open>enumerate\<close>.
\<close>

fun convert_loop ::
  "config \<Rightarrow> (int \<Rightarrow> string \<rightharpoonup> rat) \<Rightarrow> bool \<Rightarrow> nat \<Rightarrow> (int \<times> row list) list
     \<Rightarrow> error + (cell list \<times> location list)" where
  "convert_loop cfg reference hr i [] = Inr ([], [])"
| "convert_loop cfg reference hr i ((sample_id, grp) # groups) =
     (let sample_reference = reference sample_id;
          samples = \<lparr>has_region = hr, rows = grp\<rparr>
      in bind (convert_to_cell cfg (i + 1) samples sample_reference) (\<lambda>c.
         bind (convert_to_location (i + 1) samples) (\<lambda>l.
         bind (convert_loop cfg reference hr (i + 1) groups) (\<lambda>(cells, locations).
           Inr (c # cells, l # locations)))))"

text \<open>
  \<^verbatim>\<open>convert_arcade\<close> from its comment \<^verbatim>\<open>Initialize outputs\<close> on: the lists
  \<^verbatim>\<open>cells\<close> and \<^verbatim>\<open>locations\<close> built from the filtered sample table. Loading the
  tables and saving the results is outside of the model.
\<close>

definition convert_arcade ::
  "config \<Rightarrow> frame \<Rightarrow> (int \<Rightarrow> string \<rightharpoonup> rat) \<Rightarrow> error + (cell list \<times> location list)" where
  "convert_arcade cfg samples reference =
     convert_loop cfg reference (has_region samples) 0 (groupby col_id (rows samples))"

subsection \<open>The transform step of \<^verbatim>\<open>convert_arcade\<close>\<close>

text \<open>
  The first two statements of \<^verbatim>\<open>convert_arcade\<close> after loading: the transform is
  calculated from the sample table and applied to the same table. On an empty table the
  offsets are NaN and the model has no value.
\<close>

definition transform_samples ::
  "frame \<Rightarrow> (axis \<Rightarrow> int) \<Rightarrow> (error + frame) option" where
  "transform_samples samples_df margins =
     (case calculate_sample_transform samples_df margins of
        None \<Rightarrow> None
      | Some (steps, offsets, bounds) \<Rightarrow>
          Some (transform_sample_voxels samples_df steps offsets))"

subsection \<open>Example data\<close>

text \<open>A row without region tag, and a row with one.\<close>

definition voxel :: "int \<Rightarrow> rat \<Rightarrow> rat \<Rightarrow> rat \<Rightarrow> row" where
  "voxel i a b c = \<lparr>col_id = i, col_x = a, col_y = b, col_z = c, col_region = []\<rparr>"

definition tagged :: "int \<Rightarrow> rat \<Rightarrow> rat \<Rightarrow> rat \<Rightarrow> string \<Rightarrow> row" where
  "tagged i a b c region = \<lparr>col_id = i, col_x = a, col_y = b, col_z = c, col_region = region\<rparr>"

text \<open>
  Statistic tables with entries for the given regions only: population mean 100 and
  deviation 10, critical mean 200 and deviation 30, for volume and height alike (the
  numbers of \<^verbatim>\<open>test_get_cell_critical_volume_given_parameters\<close>).
\<close>

definition example_tables :: "string list \<Rightarrow> config" where
  "example_tables regions =
     (let table = (\<lambda>v region. if region \<in> set regions then Some v else None)
      in \<lparr>VOLUME_MU = table 100, VOLUME_SIGMA = table 10,
           CRITICAL_VOLUME_MU = table 200, CRITICAL_VOLUME_SIGMA = table 30,
           HEIGHT_MU = table 100, HEIGHT_SIGMA = table 10,
           CRITICAL_HEIGHT_MU = table 200, CRITICAL_HEIGHT_SIGMA = table 30\<rparr>)"

subsection \<open>Well-configured statistic tables\<close>

text \<open>
  A region has statistics when it is a key of each of the eight tables and the
  deviation of its population volume, by which \<^verbatim>\<open>get_cell_criticals\<close> divides a
  native number, is not zero.
\<close>

definition has_statistics :: "config \<Rightarrow> string \<Rightarrow> bool" where
  "has_statistics cfg region \<longleftrightarrow>
     VOLUME_MU cfg region \<noteq> None \<and> VOLUME_SIGMA cfg region \<noteq> None
     \<and> VOLUME_SIGMA cfg region \<noteq> Some 0
     \<and> CRITICAL_VOLUME_MU cfg region \<noteq> None \<and> CRITICAL_VOLUME_SIGMA cfg region \<noteq> None
     \<and> HEIGHT_MU cfg region \<noteq> None \<and> HEIGHT_SIGMA cfg region \<noteq> None
     \<and> CRITICAL_HEIGHT_MU cfg region \<noteq> None \<and> CRITICAL_HEIGHT_SIGMA cfg region \<noteq> None"

section \<open>Properties\<close>

subsection \<open>The classifier\<close>

text \<open>
  Claim C1. With the thresholds of the source and a critical volume of 1000, the volumes
  0 and 249 are classified \<^verbatim>\<open>APOPTOTIC_LATE\<close>, the volume 250 is classified
  \<^verbatim>\<open>APOPTOTIC_EARLY\<close> and the volume 2000 is classified \<^verbatim>\<open>PROLIFERATIVE_G2\<close>.
  For every volume and critical volume the classifier returns, the state is the text of
  the phase before its first underscore, and the phase is one of the five full labels.
\<close>

theorem get_cell_phase_boundaries:
  "get_cell_phase 0 1000 = Inr (''APOPTOTIC'', ''APOPTOTIC_LATE'')
   \<and> get_cell_phase 249 1000 = Inr (''APOPTOTIC'', ''APOPTOTIC_LATE'')
   \<and> get_cell_phase 250 1000 = Inr (''APOPTOTIC'', ''APOPTOTIC_EARLY'')
   \<and> get_cell_phase 2000 1000 = Inr (''PROLIFERATIVE'', ''PROLIFERATIVE_G2'')
   \<and> (case get_cell_phase volume critical_volume of
         Inl e \<Rightarrow> False
       | Inr (state, phase) \<Rightarrow>
           state = takeWhile (\<lambda>c. c \<noteq> CHR ''_'') phase
           \<and> phase \<in> {''APOPTOTIC_LATE'', ''APOPTOTIC_EARLY'', ''PROLIFERATIVE_G1'',
                ''PROLIFERATIVE_S'', ''PROLIFERATIVE_G2''})"
  by (simp add: get_cell_phase_def fractions_def states_def phases_def getitem_def)

text \<open>
  Claim C5 holds of the default mapping \<^verbatim>\<open>STATE_THRESHOLDS\<close> of the flow and not of
  \<^verbatim>\<open>get_cell_phase\<close>: the mapping gives 0.90 for \<^verbatim>\<open>APOPTOTIC_EARLY\<close>, the list
  of fractions in \<^verbatim>\<open>get_cell_phase\<close> has 1 at that position and agrees with the
  mapping on the four other labels of the claim. A cell of volume 950 with critical volume
  1000 lies above 0.90 times the critical volume, and \<^verbatim>\<open>get_cell_phase\<close> still
  classifies it \<^verbatim>\<open>APOPTOTIC_EARLY\<close>.
\<close>

theorem early_fraction_is_not_090:
  "map_of STATE_THRESHOLDS ''APOPTOTIC_EARLY'' = Some 0.90
   \<and> take 5 STATE_THRESHOLDS
       = [(''APOPTOTIC_LATE'', 0.25), (''APOPTOTIC_EARLY'', 0.90),
          (''PROLIFERATIVE_G1'', 1.124), (''PROLIFERATIVE_S'', 1.726),
          (''PROLIFERATIVE_G2'', 1.969)]
   \<and> zip (map2 (\<lambda>state phase. state @ ''_'' @ phase) states phases) fractions
       = (take 5 STATE_THRESHOLDS)[1 := (''APOPTOTIC_EARLY'', 1)]
   \<and> fractions ! 1 \<noteq> 0.90
   \<and> (0.90 :: rat) * 1000 \<le> 950
   \<and> get_cell_phase 950 1000 = Inr (''APOPTOTIC'', ''APOPTOTIC_EARLY'')"
  by (simp add: get_cell_phase_def fractions_def states_def phases_def getitem_def
      STATE_THRESHOLDS_def)

subsection \<open>Exceptions pass through \<open>bind\<close>\<close>

lemma bind_InrE:
  assumes "bind m f = Inr v"
  obtains a where "m = Inr a" and "f a = Inr v"
  using assms by (cases m) (simp_all add: bind_def)

lemma bind_InlE:
  assumes "bind m f = Inl e"
  obtains "m = Inl e" | a where "m = Inr a" and "f a = Inl e"
  using assms by (cases m) (simp_all add: bind_def)

lemma bind_Inr [simp]: "bind (Inr a) f = f a"
  by (simp add: bind_def)

lemma bind_Inl [simp]: "bind (Inl e) f = Inl e"
  by (simp add: bind_def)

lemma lookup_Inr: "lookup d k = Inr v \<longleftrightarrow> d k = Some v"
  by (simp add: lookup_def split: option.splits)

lemma lookup_Inl: "lookup d k = Inl e \<longleftrightarrow> d k = None \<and> e = KeyError k"
  by (auto simp add: lookup_def split: option.splits)

lemma py_div_Inr: "py_div a b = Inr q \<longleftrightarrow> b \<noteq> 0 \<and> q = a / b"
  by (auto simp add: py_div_def)

lemma py_div_Inl: "py_div a b = Inl e \<longleftrightarrow> b = 0 \<and> e = ZeroDivisionError"
  by (auto simp add: py_div_def)

subsection \<open>Critical values\<close>

lemma get_cell_criticals_Inr:
  assumes "get_cell_criticals cfg samples reference region = Inr (critical_volume, critical_height)"
  shows "\<exists>mu sigma cmu csigma.
           VOLUME_MU cfg region = Some mu \<and> VOLUME_SIGMA cfg region = Some sigma \<and> sigma \<noteq> 0
         \<and> CRITICAL_VOLUME_MU cfg region = Some cmu
         \<and> CRITICAL_VOLUME_SIGMA cfg region = Some csigma
         \<and> region \<in> dom (HEIGHT_MU cfg) \<and> region \<in> dom (HEIGHT_SIGMA cfg)
         \<and> region \<in> dom (CRITICAL_HEIGHT_MU cfg) \<and> region \<in> dom (CRITICAL_HEIGHT_SIGMA cfg)
         \<and> critical_volume =
             (((case reference (if region = ''DEFAULT'' then ''volume'' else ''volume.'' @ region) of
                  Some v \<Rightarrow> v
                | None \<Rightarrow> of_nat (length (rows samples))) - mu) / sigma) * csigma + cmu"
  using assms unfolding get_cell_criticals_def Let_def
  by (elim bind_InrE) (auto simp: lookup_Inr py_div_Inr)

lemma get_cell_criticals_Inl:
  assumes "get_cell_criticals cfg samples reference region = Inl e"
  shows "e = KeyError region \<or> e = ZeroDivisionError"
  using assms unfolding get_cell_criticals_def Let_def
  by (elim bind_InlE) (simp_all add: lookup_Inl py_div_Inl)

text \<open>
  With every statistic of the region present and a non-zero deviation of the volume,
  the computation returns.
\<close>

lemma get_cell_criticals_returns:
  assumes "region \<in> dom (VOLUME_MU cfg)" "VOLUME_SIGMA cfg region = Some sigma" "sigma \<noteq> 0"
    "region \<in> dom (CRITICAL_VOLUME_MU cfg)" "region \<in> dom (CRITICAL_VOLUME_SIGMA cfg)"
    "region \<in> dom (HEIGHT_MU cfg)" "region \<in> dom (HEIGHT_SIGMA cfg)"
    "region \<in> dom (CRITICAL_HEIGHT_MU cfg)" "region \<in> dom (CRITICAL_HEIGHT_SIGMA cfg)"
  shows "\<exists>v. get_cell_criticals cfg samples reference region = Inr v"
  using assms
  by (auto simp: get_cell_criticals_def lookup_def py_div_def Let_def)

text \<open>
  Claim C2. Whenever the computation of the critical values returns, the critical volume
  is \<open>((raw - population_mean) / population_std) * critical_std + critical_mean\<close> with
  the four statistics of the region, where \<open>raw\<close> is the entry of the reference
  mapping under the volume key of the region (\<^verbatim>\<open>volume\<close> for \<^verbatim>\<open>DEFAULT\<close>,
  \<^verbatim>\<open>volume.<region>\<close> otherwise) when there is one, and the number of rows of the
  group otherwise.
\<close>

theorem critical_volume_formula:
  assumes "get_cell_criticals cfg samples reference region = Inr (critical_volume, critical_height)"
  shows "\<exists>population_mean population_std critical_mean critical_std raw.
           VOLUME_MU cfg region = Some population_mean
         \<and> VOLUME_SIGMA cfg region = Some population_std \<and> population_std \<noteq> 0
         \<and> CRITICAL_VOLUME_MU cfg region = Some critical_mean
         \<and> CRITICAL_VOLUME_SIGMA cfg region = Some critical_std
         \<and> raw = (case reference (if region = ''DEFAULT'' then ''volume''
                                   else ''volume.'' @ region) of
                    Some v \<Rightarrow> v
                  | None \<Rightarrow> of_nat (length (rows samples)))
         \<and> critical_volume =
             ((raw - population_mean) / population_std) * critical_std + critical_mean"
  using get_cell_criticals_Inr [OF assms] by blast

text \<open>
  With mean 100, deviation 10, critical mean 200 and critical deviation 30, a group of
  1000 rows has the critical volume 2900.
\<close>

theorem critical_volume_formula_witness:
  "get_cell_criticals (example_tables [''REGION''])
       \<lparr>has_region = False, rows = replicate 1000 (voxel 1 0 0 0)\<rparr> Map.empty ''REGION''
     = Inr (2900, Some (- 100))
   \<and> (2900 :: rat) = ((1000 - 100) / 10) * 30 + 200"
proof -
  have h: "get_cell_criticals (example_tables [''REGION''])
       \<lparr>has_region = False, rows = replicate 1000 (voxel 1 0 0 0)\<rparr> Map.empty ''REGION''
     = Inr (2900, Some (- 100))"
    by code_simp
  from critical_volume_formula [OF h] h show ?thesis
    by simp
qed

text \<open>
  Claim C4 does not hold of the source: \<^verbatim>\<open>get_cell_criticals\<close> never reads a height
  from the reference mapping. Entries under \<^verbatim>\<open>height\<close> and \<^verbatim>\<open>height.<region>\<close>
  leave its result unchanged; with a reference height of 20 and samples spanning a
  height of 10, the critical height is computed from 10 (\<open>-70\<close>, where 20 would give
  \<open>-40\<close>).
\<close>

theorem reference_height_is_ignored:
  "get_cell_criticals cfg samples
       (reference(''height'' \<mapsto> h, ''height.'' @ region \<mapsto> h')) region
     = get_cell_criticals cfg samples reference region
   \<and> get_cell_criticals (example_tables [''DEFAULT''])
       \<lparr>has_region = False, rows = [voxel 1 0 0 0, voxel 1 0 0 10]\<rparr>
       [''height'' \<mapsto> 20] ''DEFAULT''
     = Inr (- 94, Some (((10 - 100) / 10) * 30 + 200))
   \<and> ((10 - 100) / 10) * 30 + 200 \<noteq> ((20 - 100) / 10) * 30 + (200 :: rat)"
proof -
  have "get_cell_criticals cfg samples
       (reference(''height'' \<mapsto> h, ''height.'' @ region \<mapsto> h')) region
     = get_cell_criticals cfg samples reference region"
    by (simp add: get_cell_criticals_def)
  moreover have "get_cell_criticals (example_tables [''DEFAULT''])
       \<lparr>has_region = False, rows = [voxel 1 0 0 0, voxel 1 0 0 10]\<rparr>
       [''height'' \<mapsto> 20] ''DEFAULT''
     = Inr (- 94, Some (((10 - 100) / 10) * 30 + 200))"
    by code_simp
  ultimately show ?thesis by simp
qed

text \<open>
  Claim C6. When the region is missing from one of the eight statistic tables
  (population or critical, mean or deviation, volume or height), the computation of the
  critical values raises, whatever the samples and the reference: it ends in the
  \<^verbatim>\<open>KeyError\<close> of the region, or in the \<^verbatim>\<open>ZeroDivisionError\<close> of a zero volume
  deviation met before the missing table is read. No value is returned.
\<close>

theorem missing_statistic_raises:
  assumes "region \<notin> dom (VOLUME_MU cfg) \<or> region \<notin> dom (VOLUME_SIGMA cfg)
         \<or> region \<notin> dom (CRITICAL_VOLUME_MU cfg) \<or> region \<notin> dom (CRITICAL_VOLUME_SIGMA cfg)
         \<or> region \<notin> dom (HEIGHT_MU cfg) \<or> region \<notin> dom (HEIGHT_SIGMA cfg)
         \<or> region \<notin> dom (CRITICAL_HEIGHT_MU cfg) \<or> region \<notin> dom (CRITICAL_HEIGHT_SIGMA cfg)"
  shows "get_cell_criticals cfg samples reference region = Inl (KeyError region)
       \<or> get_cell_criticals cfg samples reference region = Inl ZeroDivisionError"
proof (cases "get_cell_criticals cfg samples reference region")
  case (Inl e)
  then show ?thesis using get_cell_criticals_Inl [OF Inl] by auto
next
  case (Inr v)
  obtain cv ch where v: "v = (cv, ch)" by (cases v)
  from get_cell_criticals_Inr [OF Inr [unfolded v]] assms show ?thesis
    by (auto simp: dom_def)
qed

text \<open>
  A table set that knows \<^verbatim>\<open>DEFAULT\<close> only, asked for the region \<^verbatim>\<open>NUCLEUS\<close>.
\<close>

theorem missing_statistic_raises_witness:
  "''NUCLEUS'' \<notin> dom (HEIGHT_SIGMA (example_tables [''DEFAULT'']))
   \<and> get_cell_criticals (example_tables [''DEFAULT''])
       \<lparr>has_region = True, rows = [tagged 1 0 0 0 ''NUCLEUS'']\<rparr> Map.empty ''NUCLEUS''
     = Inl (KeyError ''NUCLEUS'')"
proof -
  have h: "''NUCLEUS'' \<notin> dom (HEIGHT_SIGMA (example_tables [''DEFAULT'']))"
    by (simp add: example_tables_def dom_def)
  have "get_cell_criticals (example_tables [''DEFAULT''])
       \<lparr>has_region = True, rows = [tagged 1 0 0 0 ''NUCLEUS'']\<rparr> Map.empty ''NUCLEUS''
     \<noteq> Inl ZeroDivisionError"
    by code_simp
  with h missing_statistic_raises [of "''NUCLEUS''" "example_tables [''DEFAULT'']"
      "\<lparr>has_region = True, rows = [tagged 1 0 0 0 ''NUCLEUS'']\<rparr>" Map.empty]
  show ?thesis by blast
qed

subsection \<open>Grouping\<close>

lemma set_unique [simp]: "set (unique vs) = set vs"
  by (simp add: unique_def)

lemma distinct_unique [simp]: "distinct (unique vs)"
  by (simp add: unique_def)

lemma length_unique: "length (unique vs) = card (set vs)"
  using distinct_card [OF distinct_unique, of vs] by simp

lemma map_fst_groupby: "map fst (groupby key rs) = sort (unique (map key rs))"
  by (simp add: groupby_def comp_def)

lemma groupby_filter_rows:
  "groupby_filter key func rs = filter (\<lambda>r. func (filter (\<lambda>s. key s = key r) rs)) rs"
proof -
  have kept: "map fst (filter (\<lambda>(k, g). func g) (groupby key rs))
      = filter (\<lambda>k. func (filter (\<lambda>s. key s = k) rs)) (sort (unique (map key rs)))"
    by (simp add: groupby_def filter_map comp_def)
  show ?thesis
    unfolding groupby_filter_def Let_def kept
    by (rule filter_cong) auto
qed

text \<open>
  Claim C7. On a table with a region column, \<^verbatim>\<open>filter_valid_samples\<close> returns, in
  table order, exactly the rows of the cells whose set of region values in the table has
  at least two elements, so every row of a cell with at most one region value is dropped.
  A table without a region column is returned unchanged.
\<close>

theorem filter_valid_samples_keeps_multi_region_cells:
  "filter_valid_samples samples =
     (if has_region samples
      then samples\<lparr>rows :=
             filter (\<lambda>r. 2 \<le> card (col_region ` {s \<in> set (rows samples). col_id s = col_id r}))
               (rows samples)\<rparr>
      else samples)"
proof -
  have "length (unique (map col_region (filter (\<lambda>s. col_id s = k) rs))) > 1
     \<longleftrightarrow> 2 \<le> card (col_region ` {s \<in> set rs. col_id s = k})" for k and rs :: "row list"
    by (auto simp add: length_unique)
  then show ?thesis
    by (simp add: filter_valid_samples_def groupby_filter_rows)
qed

text \<open>
  Two cells with interleaved rows: cell 1 has three regions and stays, cell 2 has one
  region and goes.
\<close>

theorem filter_valid_samples_keeps_multi_region_cells_witness:
  "filter_valid_samples \<lparr>has_region = True, rows =
       [tagged 1 1 2 3 ''REGION_A'', tagged 2 10 11 12 ''REGION_C'',
        tagged 1 4 5 6 ''REGION_B'', tagged 2 13 14 15 ''REGION_C'',
        tagged 1 7 8 9 ''REGION_C'']\<rparr>
     = \<lparr>has_region = True, rows =
       [tagged 1 1 2 3 ''REGION_A'', tagged 1 4 5 6 ''REGION_B'',
        tagged 1 7 8 9 ''REGION_C'']\<rparr>"
proof -
  have h: ?thesis
    by code_simp
  from filter_valid_samples_keeps_multi_region_cells [of "\<lparr>has_region = True, rows =
       [tagged 1 1 2 3 ''REGION_A'', tagged 2 10 11 12 ''REGION_C'',
        tagged 1 4 5 6 ''REGION_B'', tagged 2 13 14 15 ''REGION_C'',
        tagged 1 7 8 9 ''REGION_C'']\<rparr>"]
  show ?thesis
    by (simp only: h)
qed

subsection \<open>Cell and location records\<close>

lemma get_cell_phase_returns: "\<exists>state phase. get_cell_phase volume critical_volume = Inr (state, phase)"
  by (simp add: get_cell_phase_def fractions_def states_def phases_def getitem_def)

lemma has_statistics_returns:
  assumes "has_statistics cfg region"
  shows "\<exists>v. get_cell_criticals cfg samples reference region = Inr v"
proof -
  from assms obtain sigma where "VOLUME_SIGMA cfg region = Some sigma" "sigma \<noteq> 0"
    by (auto simp: has_statistics_def)
  with assms show ?thesis
    by (intro get_cell_criticals_returns [where sigma = sigma])
       (auto simp: has_statistics_def dom_def)
qed

lemma regions_loop_returns:
  assumes "\<forall>g \<in> set groups. has_statistics cfg (fst g)"
  shows "\<exists>regions. regions_loop cfg reference groups = Inr regions"
  using assms
proof (induction groups)
  case Nil
  then show ?case by simp
next
  case (Cons g groups)
  obtain region grp where g: "g = (region, grp)" by (cases g)
  from Cons.prems g have "has_statistics cfg region" by simp
  from has_statistics_returns [OF this]
  obtain v where "get_cell_criticals cfg \<lparr>has_region = True, rows = grp\<rparr> reference region = Inr v"
    by blast
  moreover from Cons obtain regions where "regions_loop cfg reference groups = Inr regions"
    by auto
  ultimately show ?case by (simp add: g)
qed

lemma regions_loop_names:
  assumes "regions_loop cfg reference groups = Inr regions"
  shows "map region_name regions = map fst groups
       \<and> map region_voxels regions = map (\<lambda>g. length (snd g)) groups"
  using assms
proof (induction groups arbitrary: regions)
  case Nil
  then show ?case by simp
next
  case (Cons g groups)
  obtain region grp where g: "g = (region, grp)" by (cases g)
  from Cons.prems [unfolded g regions_loop.simps]
  obtain criticals rest where rest: "regions_loop cfg reference groups = Inr rest"
    and regions: "regions = \<lparr>region_name = region, region_voxels = length grp,
              region_criticals = criticals\<rparr> # rest"
    by (elim bind_InrE) auto
  from Cons.IH [OF rest] show ?case
    by (simp add: regions g)
qed

lemma convert_to_cell_returns:
  assumes "has_statistics cfg ''DEFAULT''"
    and "has_region samples \<Longrightarrow> \<forall>r \<in> set (rows samples). has_statistics cfg (col_region r)"
  shows "\<exists>c. convert_to_cell cfg cid samples reference = Inr c"
proof -
  obtain criticals where c: "get_cell_criticals cfg samples reference ''DEFAULT'' = Inr criticals"
    using has_statistics_returns [OF assms(1)] by blast
  obtain state phase where p:
    "get_cell_phase (of_nat (length (rows samples))) (fst criticals) = Inr (state, phase)"
    using get_cell_phase_returns by blast
  show ?thesis
  proof (cases "has_region samples")
    case True
    with assms(2)
    have "\<forall>g \<in> set (groupby col_region (rows samples)). has_statistics cfg (fst g)"
      by (auto simp: groupby_def)
    from regions_loop_returns [OF this]
    obtain regions where "get_cell_regions cfg samples reference = Inr regions"
      unfolding get_cell_regions_def by blast
    with c p True show ?thesis
      by (simp add: convert_to_cell_def Let_def)
  next
    case False
    with c p show ?thesis
      by (simp add: convert_to_cell_def Let_def)
  qed
qed

lemma convert_to_cell_fields:
  assumes "convert_to_cell cfg cid samples reference = Inr c"
  shows "cell_id c = cid \<and> cell_voxels c = length (rows samples)
       \<and> (if has_region samples
          then \<exists>regions. cell_regions c = Some regions
                 \<and> map region_name regions = sort (unique (map col_region (rows samples)))
          else cell_regions c = None)"
proof -
  from assms [unfolded convert_to_cell_def Let_def]
  obtain criticals sp where
    rest: "(case sp of (state, phase) \<Rightarrow>
       if has_region samples
       then bind (get_cell_regions cfg samples reference) (\<lambda>regions.
              Inr (\<lparr>cell_id = cid, cell_parent = 0, cell_pop = 1, cell_age = 0,
                   cell_divisions = 0, cell_state = state, cell_phase = phase,
                   cell_voxels = length (rows samples), cell_criticals = criticals,
                   cell_regions = None\<rparr>\<lparr>cell_regions := Some regions\<rparr>))
       else Inr \<lparr>cell_id = cid, cell_parent = 0, cell_pop = 1, cell_age = 0,
                   cell_divisions = 0, cell_state = state, cell_phase = phase,
                   cell_voxels = length (rows samples), cell_criticals = criticals,
                   cell_regions = None\<rparr>) = Inr c"
    by (elim bind_InrE)
  obtain state phase where sp: "sp = (state, phase)" by (cases sp)
  show ?thesis
  proof (cases "has_region samples")
    case True
    with rest sp obtain regions where
      r: "get_cell_regions cfg samples reference = Inr regions" and
      c: "c = \<lparr>cell_id = cid, cell_parent = 0, cell_pop = 1, cell_age = 0,
                   cell_divisions = 0, cell_state = state, cell_phase = phase,
                   cell_voxels = length (rows samples), cell_criticals = criticals,
                   cell_regions = Some regions\<rparr>"
      by (auto elim!: bind_InrE)
    from regions_loop_names [OF r [unfolded get_cell_regions_def]]
    have "map region_name regions = sort (unique (map col_region (rows samples)))"
      by (simp add: map_fst_groupby)
    with True c show ?thesis by simp
  next
    case False
    with rest sp show ?thesis by auto
  qed
qed

lemma int_mean_returns:
  "vs \<noteq> [] \<Longrightarrow> int_mean vs = Inr (py_int (sum_list vs / of_nat (length vs)))"
  by (simp add: int_mean_def series_mean_def)

lemma convert_to_location_value:
  assumes "rows samples \<noteq> []"
  shows "convert_to_location cid samples =
     Inr \<lparr>location_id = cid,
          location_center =
            (py_int (sum_list (column X samples) / of_nat (length (rows samples))),
             py_int (sum_list (column Y samples) / of_nat (length (rows samples))),
             py_int (sum_list (column Z samples) / of_nat (length (rows samples)))),
          location_list =
            (if has_region samples
             then map (\<lambda>(region, grp).
                         \<lparr>entry_region = region, entry_voxels = make_location_voxels grp\<rparr>)
                    (groupby col_region (rows samples))
             else [\<lparr>entry_region = ''UNDEFINED'',
                    entry_voxels = make_location_voxels (rows samples)\<rparr>])\<rparr>"
  using assms
  by (simp add: convert_to_location_def make_location_center_def int_mean_returns column_def)

lemma py_int_towards_zero: "py_int q = (if 0 \<le> q then \<lfloor>q\<rfloor> else \<lceil>q\<rceil>)"
  by (simp add: py_int_def ceiling_def)

text \<open>
  Claim C8, as stated, fails on a group with a negative or a fractional coordinate:
  \<^verbatim>\<open>int\<close> rounds towards zero. The mean \<open>-1/2\<close> of the x column becomes 0 where
  its floor is \<open>-1\<close>, and the z coordinate \<open>1/2\<close> of both rows is emitted as 0.
\<close>

theorem center_is_not_floor:
  "convert_to_location 1 \<lparr>has_region = False, rows = [voxel 1 (- 1) 2 (1 / 2), voxel 1 0 4 (1 / 2)]\<rparr>
     = Inr \<lparr>location_id = 1, location_center = (0, 3, 0),
            location_list = [\<lparr>entry_region = ''UNDEFINED'',
                               entry_voxels = [(- 1, 2, 0), (0, 4, 0)]\<rparr>]\<rparr>
   \<and> \<lfloor>sum_list [- 1, 0 :: rat] / 2\<rfloor> = - 1
   \<and> (0 :: int) \<noteq> - 1
   \<and> (of_int 0 :: rat) \<noteq> 1 / 2"
proof -
  have "convert_to_location 1
       \<lparr>has_region = False, rows = [voxel 1 (- 1) 2 (1 / 2), voxel 1 0 4 (1 / 2)]\<rparr>
     = Inr \<lparr>location_id = 1, location_center = (0, 3, 0),
            location_list = [\<lparr>entry_region = ''UNDEFINED'',
                               entry_voxels = [(- 1, 2, 0), (0, 4, 0)]\<rparr>]\<rparr>"
    by code_simp
  moreover have "\<lfloor>sum_list [- 1, 0 :: rat] / 2\<rfloor> = - 1"
    by code_simp
  ultimately show ?thesis by simp
qed

text \<open>
  Claim C8, amended. For every non-empty cell group without a region column, the center
  of the location record is the component-wise mean of the coordinates rounded towards
  zero (its floor when the mean is not negative, its ceiling otherwise), and the location
  list is exactly one entry with region \<^verbatim>\<open>UNDEFINED\<close> whose voxels are the
  \<open>(x, y, z)\<close> triples of the group in row order, each coordinate rounded towards zero.
\<close>

theorem location_of_untagged_group:
  assumes "\<not> has_region samples" and "rows samples \<noteq> []"
  shows "convert_to_location cid samples =
     (let towards_zero = (\<lambda>q :: rat. if 0 \<le> q then \<lfloor>q\<rfloor> else \<lceil>q\<rceil>);
          mean = (\<lambda>i. sum_list (column i samples) / of_nat (length (rows samples)))
      in Inr \<lparr>location_id = cid,
               location_center = (towards_zero (mean X), towards_zero (mean Y),
                                  towards_zero (mean Z)),
               location_list =
                 [\<lparr>entry_region = ''UNDEFINED'',
                    entry_voxels =
                      map (\<lambda>r. (towards_zero (col_x r), towards_zero (col_y r),
                                 towards_zero (col_z r))) (rows samples)\<rparr>]\<rparr>)"
  using assms
  by (simp add: convert_to_location_value make_location_voxels_def py_int_towards_zero Let_def)

text \<open>The five samples of the specification: the center is \<open>(3, 6, 8)\<close>.\<close>

theorem location_of_untagged_group_witness:
  "\<not> has_region \<lparr>has_region = False, rows =
       [voxel 1 1 2 6, voxel 1 2 4 7, voxel 1 3 6 8, voxel 1 4 8 9, voxel 1 5 10 10]\<rparr>
   \<and> rows \<lparr>has_region = False, rows =
       [voxel 1 1 2 6, voxel 1 2 4 7, voxel 1 3 6 8, voxel 1 4 8 9, voxel 1 5 10 10]\<rparr> \<noteq> []
   \<and> convert_to_location 1 \<lparr>has_region = False, rows =
       [voxel 1 1 2 6, voxel 1 2 4 7, voxel 1 3 6 8, voxel 1 4 8 9, voxel 1 5 10 10]\<rparr>
     = Inr \<lparr>location_id = 1, location_center = (3, 6, 8),
            location_list = [\<lparr>entry_region = ''UNDEFINED'',
              entry_voxels = [(1, 2, 6), (2, 4, 7), (3, 6, 8), (4, 8, 9), (5, 10, 10)]\<rparr>]\<rparr>"
proof -
  have h1: "\<not> has_region \<lparr>has_region = False, rows =
       [voxel 1 1 2 6, voxel 1 2 4 7, voxel 1 3 6 8, voxel 1 4 8 9, voxel 1 5 10 10]\<rparr>"
    by simp
  have h2: "rows \<lparr>has_region = False, rows =
       [voxel 1 1 2 6, voxel 1 2 4 7, voxel 1 3 6 8, voxel 1 4 8 9, voxel 1 5 10 10]\<rparr> \<noteq> []"
    by simp
  from location_of_untagged_group [OF h1 h2, of 1] h1 h2 show ?thesis
    by (simp add: column_def voxel_def)
qed

text \<open>
  Claim C10, as stated, fails: a group whose rows meet \<^verbatim>\<open>NUCLEUS\<close> before
  \<^verbatim>\<open>DEFAULT\<close> has its regions emitted as \<^verbatim>\<open>DEFAULT\<close>, \<^verbatim>\<open>NUCLEUS\<close>, in the cell
  record and in the location record, since \<^verbatim>\<open>groupby\<close> sorts its keys.
\<close>

theorem regions_not_in_row_order:
  "unique (map col_region [tagged 1 0 0 0 ''NUCLEUS'', tagged 1 1 0 0 ''DEFAULT''])
     = [''NUCLEUS'', ''DEFAULT'']
   \<and> convert_to_location 1
       \<lparr>has_region = True, rows = [tagged 1 0 0 0 ''NUCLEUS'', tagged 1 1 0 0 ''DEFAULT'']\<rparr>
     = Inr \<lparr>location_id = 1, location_center = (0, 0, 0),
            location_list = [\<lparr>entry_region = ''DEFAULT'', entry_voxels = [(1, 0, 0)]\<rparr>,
                             \<lparr>entry_region = ''NUCLEUS'', entry_voxels = [(0, 0, 0)]\<rparr>]\<rparr>
   \<and> get_cell_regions (example_tables [''DEFAULT'', ''NUCLEUS''])
       \<lparr>has_region = True, rows = [tagged 1 0 0 0 ''NUCLEUS'', tagged 1 1 0 0 ''DEFAULT'']\<rparr>
       Map.empty
     = Inr [\<lparr>region_name = ''DEFAULT'', region_voxels = 1,
              region_criticals = (- 97, Some (- 100))\<rparr>,
            \<lparr>region_name = ''NUCLEUS'', region_voxels = 1,
              region_criticals = (- 97, Some (- 100))\<rparr>]"
  by code_simp

text \<open>
  Claim C10, amended. For every region-tagged cell group, the per-region sub-records of
  the cell record and the per-region entries of the location list enumerate the distinct
  regions of the group in ascending order of the region names (the order of the sorted
  group keys), whatever the order of the rows; the result is a function of the input.
\<close>

theorem regions_in_sorted_order:
  assumes "has_region samples"
  shows "(\<forall>c. convert_to_cell cfg cid samples reference = Inr c \<longrightarrow>
            map_option (map region_name) (cell_regions c)
              = Some (sorted_list_of_set (col_region ` set (rows samples))))
       \<and> (\<forall>l. convert_to_location cid samples = Inr l \<longrightarrow>
            map entry_region (location_list l)
              = sorted_list_of_set (col_region ` set (rows samples)))"
proof -
  have keys: "sort (unique (map col_region (rows samples)))
      = sorted_list_of_set (col_region ` set (rows samples))"
    by (intro sorted_distinct_set_unique) simp_all
  have "map_option (map region_name) (cell_regions c)
      = Some (sorted_list_of_set (col_region ` set (rows samples)))"
    if "convert_to_cell cfg cid samples reference = Inr c" for c
    using convert_to_cell_fields [OF that] assms keys by auto
  moreover have "map entry_region (location_list l)
      = sorted_list_of_set (col_region ` set (rows samples))"
    if l: "convert_to_location cid samples = Inr l" for l
  proof (cases "rows samples = []")
    case True
    with l show ?thesis
      by (simp add: convert_to_location_def make_location_center_def int_mean_def
          series_mean_def column_def)
  next
    case False
    from l [unfolded convert_to_location_value [OF False]] assms
    have "map entry_region (location_list l) = map fst (groupby col_region (rows samples))"
      by (auto simp: comp_def case_prod_unfold)
    with keys show ?thesis
      by (simp add: map_fst_groupby)
  qed
  ultimately show ?thesis by blast
qed

theorem regions_in_sorted_order_witness:
  "has_region \<lparr>has_region = True, rows = [tagged 1 0 0 0 ''NUCLEUS'', tagged 1 1 0 0 ''DEFAULT'']\<rparr>
   \<and> map_sum id (\<lambda>c. map_option (map region_name) (cell_regions c))
       (convert_to_cell (example_tables [''DEFAULT'', ''NUCLEUS'']) 1
         \<lparr>has_region = True, rows = [tagged 1 0 0 0 ''NUCLEUS'', tagged 1 1 0 0 ''DEFAULT'']\<rparr>
         Map.empty)
     = Inr (Some [''DEFAULT'', ''NUCLEUS''])
   \<and> map_sum id (\<lambda>l. map entry_region (location_list l))
       (convert_to_location 1
         \<lparr>has_region = True, rows = [tagged 1 0 0 0 ''NUCLEUS'', tagged 1 1 0 0 ''DEFAULT'']\<rparr>)
     = Inr [''DEFAULT'', ''NUCLEUS'']"
proof -
  have h: "has_region
      \<lparr>has_region = True, rows = [tagged 1 0 0 0 ''NUCLEUS'', tagged 1 1 0 0 ''DEFAULT'']\<rparr>"
    by simp
  have e: ?thesis
    by code_simp
  from regions_in_sorted_order [OF h] show ?thesis
    by (simp only: e)
qed

subsection \<open>The conversion loop\<close>

lemma count_key:
  assumes "distinct ks" and "k' \<in> set ks"
  shows "sum_list (map (\<lambda>k. if k' = k then 1 else 0 :: nat) ks) = 1"
  using assms by (induction ks) auto

lemma group_sizes:
  assumes "distinct ks" and "key ` set rs \<subseteq> set ks"
  shows "sum_list (map (\<lambda>k. length (filter (\<lambda>r. key r = k) rs)) ks) = length rs"
  using assms(2)
proof (induction rs)
  case Nil
  then show ?case by simp
next
  case (Cons r rs)
  have "sum_list (map (\<lambda>k. length (filter (\<lambda>r. key r = k) (r # rs))) ks)
      = sum_list (map (\<lambda>k. (if key r = k then 1 else 0)
                             + length (filter (\<lambda>r. key r = k) rs)) ks)"
    by (intro arg_cong [where f = sum_list] map_cong) auto
  also have "\<dots> = sum_list (map (\<lambda>k. if key r = k then 1 else 0) ks)
                 + sum_list (map (\<lambda>k. length (filter (\<lambda>r. key r = k) rs)) ks)"
    by (simp add: sum_list_addf)
  also have "\<dots> = 1 + length rs"
    using Cons count_key [OF assms(1), of "key r"] by simp
  finally show ?case by simp
qed

lemma groupby_sizes: "sum_list (map (\<lambda>g. length (snd g)) (groupby key rs)) = length rs"
  using group_sizes [of "sort (unique (map key rs))" key rs]
  by (simp add: groupby_def comp_def)

lemma length_groupby: "length (groupby key rs) = card (key ` set rs)"
  by (simp add: groupby_def length_unique)

lemma groupby_groups:
  assumes "g \<in> set (groupby key rs)"
  shows "snd g \<noteq> [] \<and> set (snd g) \<subseteq> set rs"
proof -
  from assms obtain k where k: "k \<in> key ` set rs" and g: "g = (k, filter (\<lambda>r. key r = k) rs)"
    by (auto simp: groupby_def)
  from k obtain r where "r \<in> set rs" "key r = k" by auto
  then have "r \<in> set (filter (\<lambda>r. key r = k) rs)" by simp
  then have "filter (\<lambda>r. key r = k) rs \<noteq> []" by (metis empty_iff empty_set)
  with g show ?thesis by auto
qed

lemma length_make_location_voxels [simp]: "length (make_location_voxels rs) = length rs"
  by (simp add: make_location_voxels_def)

lemma convert_to_location_fields:
  assumes "convert_to_location cid samples = Inr l"
  shows "location_id l = cid
       \<and> sum_list (map (\<lambda>e. length (entry_voxels e)) (location_list l)) = length (rows samples)"
proof (cases "rows samples = []")
  case True
  with assms show ?thesis
    by (simp add: convert_to_location_def make_location_center_def int_mean_def
        series_mean_def column_def)
next
  case False
  have "sum_list (map (\<lambda>e. length (entry_voxels e))
          (map (\<lambda>(region, grp).
                  \<lparr>entry_region = region, entry_voxels = make_location_voxels grp\<rparr>)
             (groupby col_region (rows samples)))) = length (rows samples)"
    using groupby_sizes [of col_region "rows samples"]
    by (simp add: comp_def case_prod_unfold)
  with assms [unfolded convert_to_location_value [OF False]] show ?thesis
    by (auto split: if_splits)
qed

lemma convert_loop_fields:
  assumes "convert_loop cfg reference hr i groups = Inr (cells, locations)"
  shows "length cells = length groups \<and> length locations = length groups
       \<and> (\<forall>k < length groups.
            cell_id (cells ! k) = i + k + 1 \<and> location_id (locations ! k) = i + k + 1
            \<and> cell_voxels (cells ! k)
                = sum_list (map (\<lambda>e. length (entry_voxels e)) (location_list (locations ! k))))"
  using assms
proof (induction groups arbitrary: i cells locations)
  case Nil
  then show ?case by simp
next
  case (Cons g groups)
  obtain sample_id grp where g: "g = (sample_id, grp)" by (cases g)
  from Cons.prems [unfolded g convert_loop.simps Let_def]
  obtain c l rest where
    c: "convert_to_cell cfg (i + 1) \<lparr>has_region = hr, rows = grp\<rparr> (reference sample_id) = Inr c"
    and l: "convert_to_location (i + 1) \<lparr>has_region = hr, rows = grp\<rparr> = Inr l"
    and rest: "convert_loop cfg reference hr (i + 1) groups = Inr rest"
    and out: "(case rest of (cells', locations') \<Rightarrow> Inr (c # cells', l # locations'))
                = (Inr (cells, locations) :: error + (cell list \<times> location list))"
    by (elim bind_InrE) auto
  obtain cells' locations' where r: "rest = (cells', locations')" by (cases rest)
  from out r have cl: "cells = c # cells'" "locations = l # locations'" by auto
  from Cons.IH [OF rest [unfolded r]]
  have len: "length cells' = length groups" "length locations' = length groups"
    and ih: "\<And>k. k < length groups \<Longrightarrow>
            cell_id (cells' ! k) = i + 1 + k + 1 \<and> location_id (locations' ! k) = i + 1 + k + 1
            \<and> cell_voxels (cells' ! k)
                = sum_list (map (\<lambda>e. length (entry_voxels e)) (location_list (locations' ! k)))"
    by auto
  from convert_to_cell_fields [OF c] convert_to_location_fields [OF l]
  have hd: "cell_id c = i + 1" "location_id l = i + 1"
    "cell_voxels c = sum_list (map (\<lambda>e. length (entry_voxels e)) (location_list l))"
    by auto
  have "cell_id (cells ! k) = i + k + 1 \<and> location_id (locations ! k) = i + k + 1
            \<and> cell_voxels (cells ! k)
                = sum_list (map (\<lambda>e. length (entry_voxels e)) (location_list (locations ! k)))"
    if "k < length (g # groups)" for k
  proof (cases k)
    case 0
    with hd cl show ?thesis by simp
  next
    case (Suc j)
    with that have "j < length groups" by simp
    from ih [OF this] Suc cl show ?thesis by simp
  qed
  with len cl show ?case by simp
qed

lemma convert_loop_returns:
  assumes "has_statistics cfg ''DEFAULT''"
    and "\<forall>g \<in> set groups. snd g \<noteq> []
           \<and> (hr \<longrightarrow> (\<forall>r \<in> set (snd g). has_statistics cfg (col_region r)))"
  shows "\<exists>out. convert_loop cfg reference hr i groups = Inr out"
  using assms(2)
proof (induction groups arbitrary: i)
  case Nil
  then show ?case by simp
next
  case (Cons g groups)
  obtain sample_id grp where g: "g = (sample_id, grp)" by (cases g)
  from Cons.prems g have grp: "grp \<noteq> []"
    and st: "hr \<Longrightarrow> \<forall>r \<in> set grp. has_statistics cfg (col_region r)"
    by auto
  have "\<exists>c. convert_to_cell cfg (i + 1) \<lparr>has_region = hr, rows = grp\<rparr>
           (reference sample_id) = Inr c"
    by (rule convert_to_cell_returns) (use assms(1) st in auto)
  then obtain c where
    c: "convert_to_cell cfg (i + 1) \<lparr>has_region = hr, rows = grp\<rparr> (reference sample_id) = Inr c"
    by blast
  obtain l where l: "convert_to_location (i + 1) \<lparr>has_region = hr, rows = grp\<rparr> = Inr l"
    using convert_to_location_value [of "\<lparr>has_region = hr, rows = grp\<rparr>"] grp by simp
  from Cons.prems have "\<forall>g \<in> set groups. snd g \<noteq> []
           \<and> (hr \<longrightarrow> (\<forall>r \<in> set (snd g). has_statistics cfg (col_region r)))"
    by simp
  from Cons.IH [OF this, of "i + 1"]
  obtain out where "convert_loop cfg reference hr (i + 1) groups = Inr out"
    by blast
  with c l show ?case
    by (cases out) (simp add: g)
qed

lemma sort_unique: "sort (unique vs) = sorted_list_of_set (set vs)"
  by (intro sorted_distinct_set_unique) simp_all

lemma groupby_nth:
  assumes "k < card (key ` set rs)"
  shows "groupby key rs ! k
       = (sorted_list_of_set (key ` set rs) ! k,
          filter (\<lambda>r. key r = sorted_list_of_set (key ` set rs) ! k) rs)"
proof -
  have keys: "sort (unique (map key rs)) = sorted_list_of_set (key ` set rs)"
    using sort_unique [of "map key rs"] by simp
  from assms have "k < length (sorted_list_of_set (key ` set rs))"
    by simp
  then show ?thesis
    by (simp add: groupby_def keys)
qed

lemma convert_loop_groups:
  assumes "convert_loop cfg reference hr i groups = Inr (cells, locations)"
  shows "\<forall>k < length groups.
           convert_to_cell cfg (i + k + 1) \<lparr>has_region = hr, rows = snd (groups ! k)\<rparr>
               (reference (fst (groups ! k))) = Inr (cells ! k)
         \<and> convert_to_location (i + k + 1) \<lparr>has_region = hr, rows = snd (groups ! k)\<rparr>
               = Inr (locations ! k)"
  using assms
proof (induction groups arbitrary: i cells locations)
  case Nil
  then show ?case by simp
next
  case (Cons g groups)
  obtain sample_id grp where g: "g = (sample_id, grp)" by (cases g)
  from Cons.prems [unfolded g convert_loop.simps Let_def]
  obtain c l rest where
    c: "convert_to_cell cfg (i + 1) \<lparr>has_region = hr, rows = grp\<rparr> (reference sample_id) = Inr c"
    and l: "convert_to_location (i + 1) \<lparr>has_region = hr, rows = grp\<rparr> = Inr l"
    and rest: "convert_loop cfg reference hr (i + 1) groups = Inr rest"
    and out: "(case rest of (cells', locations') \<Rightarrow> Inr (c # cells', l # locations'))
                = (Inr (cells, locations) :: error + (cell list \<times> location list))"
    by (elim bind_InrE) auto
  obtain cells' locations' where r: "rest = (cells', locations')" by (cases rest)
  from out r have cl: "cells = c # cells'" "locations = l # locations'" by auto
  from Cons.IH [OF rest [unfolded r]]
  have ih: "\<And>k. k < length groups \<Longrightarrow>
           convert_to_cell cfg (i + 1 + k + 1) \<lparr>has_region = hr, rows = snd (groups ! k)\<rparr>
               (reference (fst (groups ! k))) = Inr (cells' ! k)
         \<and> convert_to_location (i + 1 + k + 1) \<lparr>has_region = hr, rows = snd (groups ! k)\<rparr>
               = Inr (locations' ! k)"
    by blast
  have "convert_to_cell cfg (i + k + 1) \<lparr>has_region = hr, rows = snd ((g # groups) ! k)\<rparr>
               (reference (fst ((g # groups) ! k))) = Inr (cells ! k)
         \<and> convert_to_location (i + k + 1) \<lparr>has_region = hr, rows = snd ((g # groups) ! k)\<rparr>
               = Inr (locations ! k)"
    if "k < length (g # groups)" for k
  proof (cases k)
    case 0
    with c l cl g show ?thesis by simp
  next
    case (Suc j)
    with that have "j < length groups" by simp
    from ih [OF this] Suc cl show ?thesis by simp
  qed
  then show ?case by blast
qed

text \<open>
  Claim C9. When the statistic tables cover the region \<^verbatim>\<open>DEFAULT\<close> and, on a table
  with a region column, every region of the table, the conversion of a filtered table
  returns. Whenever it returns, it has emitted as many cell records and as many location
  records as the table has distinct cell ids. The records at position \<open>i\<close> (counted from
  1) of the two lists are the cell record and the location record of the \<open>i\<close>-th group
  of the grouped table, that is of the rows of the \<open>i\<close>-th smallest sample id, in table
  order; both carry the id \<open>i\<close>, the counter of the iteration and not the sample id;
  the \<^verbatim>\<open>voxels\<close> count of the cell record is the number of rows of that group and is
  the total number of voxel triples in the entries of the location record.
\<close>

theorem convert_arcade_renumbers_cells:
  "((has_statistics cfg ''DEFAULT''
      \<and> (has_region samples \<longrightarrow> (\<forall>r \<in> set (rows samples). has_statistics cfg (col_region r))))
     \<longrightarrow> (\<exists>cells locations. convert_arcade cfg samples reference = Inr (cells, locations)))
   \<and> (\<forall>cells locations. convert_arcade cfg samples reference = Inr (cells, locations) \<longrightarrow>
         length cells = card (col_id ` set (rows samples))
       \<and> length locations = card (col_id ` set (rows samples))
       \<and> (\<forall>i < card (col_id ` set (rows samples)).
            cell_id (cells ! i) = i + 1 \<and> location_id (locations ! i) = i + 1
            \<and> cell_voxels (cells ! i)
                = sum_list (map (\<lambda>e. length (entry_voxels e))
                    (location_list (locations ! i)))
            \<and> (let sample_id = sorted_list_of_set (col_id ` set (rows samples)) ! i;
                    grp = \<lparr>has_region = has_region samples,
                           rows = filter (\<lambda>r. col_id r = sample_id) (rows samples)\<rparr>
                in convert_to_cell cfg (i + 1) grp (reference sample_id) = Inr (cells ! i)
                 \<and> convert_to_location (i + 1) grp = Inr (locations ! i)
                 \<and> cell_voxels (cells ! i) = length (rows grp))))"
proof -
  have returns: "(has_statistics cfg ''DEFAULT''
      \<and> (has_region samples \<longrightarrow> (\<forall>r \<in> set (rows samples). has_statistics cfg (col_region r))))
     \<longrightarrow> (\<exists>cells locations. convert_arcade cfg samples reference = Inr (cells, locations))"
  proof
    assume st: "has_statistics cfg ''DEFAULT''
      \<and> (has_region samples \<longrightarrow> (\<forall>r \<in> set (rows samples). has_statistics cfg (col_region r)))"
    have "\<forall>g \<in> set (groupby col_id (rows samples)). snd g \<noteq> []
           \<and> (has_region samples \<longrightarrow> (\<forall>r \<in> set (snd g). has_statistics cfg (col_region r)))"
      using st groupby_groups [of _ col_id "rows samples"] by blast
    from convert_loop_returns [OF _ this, of reference 0] st
    show "\<exists>cells locations. convert_arcade cfg samples reference = Inr (cells, locations)"
      by (auto simp: convert_arcade_def)
  qed
  have fields: "\<forall>cells locations. convert_arcade cfg samples reference = Inr (cells, locations) \<longrightarrow>
         length cells = card (col_id ` set (rows samples))
       \<and> length locations = card (col_id ` set (rows samples))
       \<and> (\<forall>i < card (col_id ` set (rows samples)).
            cell_id (cells ! i) = i + 1 \<and> location_id (locations ! i) = i + 1
            \<and> cell_voxels (cells ! i)
                = sum_list (map (\<lambda>e. length (entry_voxels e))
                    (location_list (locations ! i)))
            \<and> (let sample_id = sorted_list_of_set (col_id ` set (rows samples)) ! i;
                    grp = \<lparr>has_region = has_region samples,
                           rows = filter (\<lambda>r. col_id r = sample_id) (rows samples)\<rparr>
                in convert_to_cell cfg (i + 1) grp (reference sample_id) = Inr (cells ! i)
                 \<and> convert_to_location (i + 1) grp = Inr (locations ! i)
                 \<and> cell_voxels (cells ! i) = length (rows grp)))"
  proof (intro allI impI)
    fix cells locations
    assume conv: "convert_arcade cfg samples reference = Inr (cells, locations)"
    from convert_loop_fields [OF conv [unfolded convert_arcade_def]]
    have f: "length cells = card (col_id ` set (rows samples))
       \<and> length locations = card (col_id ` set (rows samples))
       \<and> (\<forall>i < card (col_id ` set (rows samples)).
            cell_id (cells ! i) = i + 1 \<and> location_id (locations ! i) = i + 1
            \<and> cell_voxels (cells ! i)
                = sum_list (map (\<lambda>e. length (entry_voxels e))
                    (location_list (locations ! i))))"
      by (simp add: length_groupby)
    have g: "(let sample_id = sorted_list_of_set (col_id ` set (rows samples)) ! i;
                    grp = \<lparr>has_region = has_region samples,
                           rows = filter (\<lambda>r. col_id r = sample_id) (rows samples)\<rparr>
                in convert_to_cell cfg (i + 1) grp (reference sample_id) = Inr (cells ! i)
                 \<and> convert_to_location (i + 1) grp = Inr (locations ! i)
                 \<and> cell_voxels (cells ! i) = length (rows grp))"
      if i: "i < card (col_id ` set (rows samples))" for i
    proof -
      let ?sid = "sorted_list_of_set (col_id ` set (rows samples)) ! i"
      let ?grp = "\<lparr>has_region = has_region samples,
                    rows = filter (\<lambda>r. col_id r = ?sid) (rows samples)\<rparr>"
      from i have "i < length (groupby col_id (rows samples))"
        by (simp add: length_groupby)
      with convert_loop_groups [OF conv [unfolded convert_arcade_def]]
      have "convert_to_cell cfg (0 + i + 1)
               \<lparr>has_region = has_region samples,
                 rows = snd (groupby col_id (rows samples) ! i)\<rparr>
               (reference (fst (groupby col_id (rows samples) ! i))) = Inr (cells ! i)
         \<and> convert_to_location (0 + i + 1)
               \<lparr>has_region = has_region samples,
                 rows = snd (groupby col_id (rows samples) ! i)\<rparr>
               = Inr (locations ! i)"
        by blast
      then have c: "convert_to_cell cfg (i + 1) ?grp (reference ?sid) = Inr (cells ! i)"
        and l: "convert_to_location (i + 1) ?grp = Inr (locations ! i)"
        by (simp_all add: groupby_nth [OF i])
      from convert_to_cell_fields [OF c]
      have "cell_voxels (cells ! i) = length (rows ?grp)"
        by simp
      with c l show ?thesis
        by (simp only: Let_def)
    qed
    from f g show "length cells = card (col_id ` set (rows samples))
       \<and> length locations = card (col_id ` set (rows samples))
       \<and> (\<forall>i < card (col_id ` set (rows samples)).
            cell_id (cells ! i) = i + 1 \<and> location_id (locations ! i) = i + 1
            \<and> cell_voxels (cells ! i)
                = sum_list (map (\<lambda>e. length (entry_voxels e))
                    (location_list (locations ! i)))
            \<and> (let sample_id = sorted_list_of_set (col_id ` set (rows samples)) ! i;
                    grp = \<lparr>has_region = has_region samples,
                           rows = filter (\<lambda>r. col_id r = sample_id) (rows samples)\<rparr>
                in convert_to_cell cfg (i + 1) grp (reference sample_id) = Inr (cells ! i)
                 \<and> convert_to_location (i + 1) grp = Inr (locations ! i)
                 \<and> cell_voxels (cells ! i) = length (rows grp)))"
      by blast
  qed
  from returns fields show ?thesis
    by (rule conjI)
qed

text \<open>
  Two cells with the sample ids 7 and 2: the group of id 2 comes first and becomes cell 1.
\<close>

theorem convert_arcade_renumbers_cells_witness:
  "convert_arcade (example_tables [''DEFAULT''])
       \<lparr>has_region = False, rows = [voxel 7 1 2 3, voxel 2 10 11 12, voxel 7 4 5 6]\<rparr>
       (\<lambda>sample_id. Map.empty)
     = Inr ([\<lparr>cell_id = 1, cell_parent = 0, cell_pop = 1, cell_age = 0, cell_divisions = 0,
               cell_state = ''PROLIFERATIVE'', cell_phase = ''PROLIFERATIVE_G2'',
               cell_voxels = 1, cell_criticals = (- 97, Some (- 100)), cell_regions = None\<rparr>,
             \<lparr>cell_id = 2, cell_parent = 0, cell_pop = 1, cell_age = 0, cell_divisions = 0,
               cell_state = ''PROLIFERATIVE'', cell_phase = ''PROLIFERATIVE_G2'',
               cell_voxels = 2, cell_criticals = (- 94, Some (- 91)), cell_regions = None\<rparr>],
            [\<lparr>location_id = 1, location_center = (10, 11, 12),
               location_list = [\<lparr>entry_region = ''UNDEFINED'',
                                  entry_voxels = [(10, 11, 12)]\<rparr>]\<rparr>,
             \<lparr>location_id = 2, location_center = (2, 3, 4),
               location_list = [\<lparr>entry_region = ''UNDEFINED'',
                                  entry_voxels = [(1, 2, 3), (4, 5, 6)]\<rparr>]\<rparr>])
   \<and> card (col_id ` set [voxel 7 1 2 3, voxel 2 10 11 12, voxel 7 4 5 6]) = 2"
proof -
  have e: "convert_arcade (example_tables [''DEFAULT''])
       \<lparr>has_region = False, rows = [voxel 7 1 2 3, voxel 2 10 11 12, voxel 7 4 5 6]\<rparr>
       (\<lambda>sample_id. Map.empty)
     = Inr ([\<lparr>cell_id = 1, cell_parent = 0, cell_pop = 1, cell_age = 0, cell_divisions = 0,
               cell_state = ''PROLIFERATIVE'', cell_phase = ''PROLIFERATIVE_G2'',
               cell_voxels = 1, cell_criticals = (- 97, Some (- 100)), cell_regions = None\<rparr>,
             \<lparr>cell_id = 2, cell_parent = 0, cell_pop = 1, cell_age = 0, cell_divisions = 0,
               cell_state = ''PROLIFERATIVE'', cell_phase = ''PROLIFERATIVE_G2'',
               cell_voxels = 2, cell_criticals = (- 94, Some (- 91)), cell_regions = None\<rparr>],
            [\<lparr>location_id = 1, location_center = (10, 11, 12),
               location_list = [\<lparr>entry_region = ''UNDEFINED'',
                                  entry_voxels = [(10, 11, 12)]\<rparr>]\<rparr>,
             \<lparr>location_id = 2, location_center = (2, 3, 4),
               location_list = [\<lparr>entry_region = ''UNDEFINED'',
                                  entry_voxels = [(1, 2, 3), (4, 5, 6)]\<rparr>]\<rparr>])"
    by code_simp
  from convert_arcade_renumbers_cells [of "example_tables [''DEFAULT'']"
      "\<lparr>has_region = False, rows = [voxel 7 1 2 3, voxel 2 10 11 12, voxel 7 4 5 6]\<rparr>"
      "\<lambda>sample_id. Map.empty"] e
  have "length [\<lparr>cell_id = 1, cell_parent = 0, cell_pop = 1, cell_age = 0, cell_divisions = 0,
               cell_state = ''PROLIFERATIVE'', cell_phase = ''PROLIFERATIVE_G2'',
               cell_voxels = 1, cell_criticals = (- 97, Some (- 100)), cell_regions = None\<rparr>,
             \<lparr>cell_id = 2, cell_parent = 0, cell_pop = 1, cell_age = 0, cell_divisions = 0,
               cell_state = ''PROLIFERATIVE'', cell_phase = ''PROLIFERATIVE_G2'',
               cell_voxels = 2, cell_criticals = (- 94, Some (- 91)), cell_regions = None\<rparr>]
      = card (col_id ` set (rows
          \<lparr>has_region = False, rows = [voxel 7 1 2 3, voxel 2 10 11 12, voxel 7 4 5 6]\<rparr>))"
    by blast
  with e show ?thesis
    by simp
qed

subsection \<open>Rounding to a double\<close>

text \<open>
  \<open>binade\<close> is the binary exponent of a positive rational, and \<open>float64\<close> returns a
  multiple of the unit in the last place of its argument that lies within half a unit of it.
\<close>

lemma pow2_power_int: "pow2 e = 2 powi e"
proof (cases "0 \<le> e")
  case True
  then show ?thesis by (simp add: pow2_def power_int_def)
next
  case False
  have "inverse (2 :: rat) ^ nat (- e) = 1 / 2 ^ nat (- e)"
    by (simp add: power_one_over)
  with False show ?thesis by (simp only: pow2_def power_int_def if_False)
qed

lemma binade_bounds:
  assumes "0 < a"
  shows "pow2 (binade a) \<le> a \<and> a < pow2 (binade a + 1)"
proof -
  obtain n d where q: "quotient_of a = (n, d)" by (cases "quotient_of a")
  from quotient_of_denom_pos [OF q] have d: "0 < d" .
  from quotient_of_div [OF q] have a: "a = of_int n / of_int d" .
  with assms d have n: "0 < n" by (simp add: zero_less_divide_iff)
  define bn bd where "bn = bitlen n" and "bd = bitlen d"
  from bitlen_bounds [OF n] have nb: "2 ^ nat (bn - 1) \<le> n" "n < 2 ^ nat bn"
    by (simp_all add: bn_def)
  from bitlen_bounds [OF d] have db: "2 ^ nat (bd - 1) \<le> d" "d < 2 ^ nat bd"
    by (simp_all add: bd_def)
  have bn1: "1 \<le> bn" and bd1: "1 \<le> bd"
    using n d by (simp_all add: bn_def bd_def bitlen_def floorlog_def)
  have n_lo: "(2 :: rat) powi (bn - 1) \<le> of_int n"
  proof -
    have "(of_int (2 ^ nat (bn - 1)) :: rat) \<le> of_int n" using nb(1) by (simp only: of_int_le_iff)
    then show ?thesis using bn1 by (simp add: power_int_def)
  qed
  have n_hi: "of_int n < (2 :: rat) powi bn"
  proof -
    have "(of_int n :: rat) < of_int (2 ^ nat bn)" using nb(2) by (simp only: of_int_less_iff)
    then show ?thesis using bn1 by (simp add: power_int_def)
  qed
  have d_lo: "(2 :: rat) powi (bd - 1) \<le> of_int d"
  proof -
    have "(of_int (2 ^ nat (bd - 1)) :: rat) \<le> of_int d" using db(1) by (simp only: of_int_le_iff)
    then show ?thesis using bd1 by (simp add: power_int_def)
  qed
  have d_hi: "of_int d < (2 :: rat) powi bd"
  proof -
    have "(of_int d :: rat) < of_int (2 ^ nat bd)" using db(2) by (simp only: of_int_less_iff)
    then show ?thesis using bd1 by (simp add: power_int_def)
  qed
  have dpos: "(0 :: rat) < of_int d" using d by simp
  have hi: "a < 2 powi (bn - bd + 1)"
  proof -
    have "a * of_int d < 2 powi bn" using a dpos n_hi by simp
    also have "(2 :: rat) powi bn = 2 powi (bn - bd + 1) * 2 powi (bd - 1)"
      by (simp add: power_int_add [symmetric])
    also have "\<dots> \<le> 2 powi (bn - bd + 1) * of_int d"
      using d_lo by (intro mult_left_mono) simp_all
    finally show ?thesis using dpos by simp
  qed
  have lo: "2 powi (bn - bd - 1) < a"
  proof -
    have "2 powi (bn - bd - 1) * of_int d < 2 powi (bn - bd - 1) * (2 :: rat) powi bd"
      using d_hi by (intro mult_strict_left_mono) simp_all
    also have "\<dots> = 2 powi (bn - 1)"
      by (simp add: power_int_add [symmetric])
    also have "\<dots> \<le> a * of_int d" using a dpos n_lo by simp
    finally show ?thesis using dpos by simp
  qed
  have b: "binade a = (if 2 powi (bn - bd) \<le> a then bn - bd else bn - bd - 1)"
    by (simp add: binade_def q bn_def bd_def pow2_power_int)
  show ?thesis
  proof (cases "2 powi (bn - bd) \<le> a")
    case True
    with hi b show ?thesis by (simp add: pow2_power_int)
  next
    case False
    with lo b show ?thesis by (simp add: pow2_power_int)
  qed
qed


lemma pow2_pos: "0 < pow2 e"
  by (simp add: pow2_power_int)

lemma round_half_even_near: "\<bar>x - of_int (round_half_even x)\<bar> \<le> 1 / 2"
proof -
  define d where "d = x - of_int \<lfloor>x\<rfloor>"
  have d: "0 \<le> d" "d < 1" unfolding d_def by linarith+
  have x: "x = of_int \<lfloor>x\<rfloor> + d" by (simp add: d_def)
  have r: "round_half_even x
      = (if d < 1 / 2 then \<lfloor>x\<rfloor> else if 1 / 2 < d then \<lfloor>x\<rfloor> + 1
         else if even \<lfloor>x\<rfloor> then \<lfloor>x\<rfloor> else \<lfloor>x\<rfloor> + 1)"
    by (simp add: round_half_even_def Let_def d_def)
  consider "d < 1 / 2" | "1 / 2 < d" | "d = 1 / 2" by linarith
  then show ?thesis
  proof cases
    case 1
    then have "x - of_int (round_half_even x) = d" by (simp add: r d_def)
    with 1 d show ?thesis by simp
  next
    case 2
    then have "x - of_int (round_half_even x) = d - 1" by (simp add: r d_def)
    with 2 d show ?thesis by simp
  next
    case 3
    then have "x - of_int (round_half_even x) = d \<or> x - of_int (round_half_even x) = d - 1"
      by (simp add: r d_def)
    with 3 show ?thesis by auto
  qed
qed

lemma float64_nearest:
  assumes "float64 q = Some r" and "q \<noteq> 0"
  shows "\<exists>m :: int. r = of_int m * pow2 (max (binade \<bar>q\<bar>) (- 1022) - 52)
           \<and> \<bar>q - r\<bar> \<le> pow2 (max (binade \<bar>q\<bar>) (- 1022) - 52) / 2"
proof -
  define ulp where "ulp = pow2 (max (binade \<bar>q\<bar>) (- 1022) - 52)"
  define m where "m = round_half_even (\<bar>q\<bar> / ulp)"
  have ulp: "0 < ulp" by (simp add: ulp_def pow2_pos)
  from assms have r: "r = (if q < 0 then - (of_int m * ulp) else of_int m * ulp)"
    by (simp add: float64_def Let_def ulp_def m_def split: if_splits)
  have "\<bar>\<bar>q\<bar> / ulp - of_int m\<bar> \<le> 1 / 2"
    unfolding m_def by (rule round_half_even_near)
  then have "\<bar>\<bar>q\<bar> / ulp - of_int m\<bar> * ulp \<le> 1 / 2 * ulp"
    using ulp by (intro mult_right_mono) simp_all
  moreover have "\<bar>\<bar>q\<bar> / ulp - of_int m\<bar> * ulp = \<bar>\<bar>q\<bar> - of_int m * ulp\<bar>"
  proof -
    have "\<bar>q\<bar> - of_int m * ulp = (\<bar>q\<bar> / ulp - of_int m) * ulp"
      using ulp by (simp add: left_diff_distrib)
    then have "\<bar>\<bar>q\<bar> - of_int m * ulp\<bar> = \<bar>\<bar>q\<bar> / ulp - of_int m\<bar> * \<bar>ulp\<bar>"
      by (simp only: abs_mult)
    with ulp show ?thesis by simp
  qed
  ultimately have near: "\<bar>\<bar>q\<bar> - of_int m * ulp\<bar> \<le> ulp / 2"
    by simp
  show ?thesis
  proof (cases "q < 0")
    case True
    with r have "r = of_int (- m) * ulp" by simp
    moreover from True near r have "\<bar>q - r\<bar> \<le> ulp / 2" by (simp add: abs_if split: if_splits)
    ultimately show ?thesis unfolding ulp_def by blast
  next
    case False
    with r have "r = of_int m * ulp" by simp
    moreover from False near r have "\<bar>q - r\<bar> \<le> ulp / 2" by (simp add: abs_if split: if_splits)
    ultimately show ?thesis unfolding ulp_def by blast
  qed
qed

subsection \<open>Transformed coordinates\<close>

text \<open>
  The rounding of the division decides the integer: a half divided by the double nearest
  to a tenth is the double 5, where the exact quotient lies below 5.
\<close>

lemma float64_examples:
  "float64 (1 / 10) = Some (3602879701896397 / 36028797018963968)
   \<and> float64 ((1 / 2) / (3602879701896397 / 36028797018963968)) = Some 5
   \<and> (1 / 2) / (3602879701896397 / 36028797018963968) < (5 :: rat)
   \<and> float64 (3 / 2) = Some (3 / 2) \<and> float64 (- 7) = Some (- 7)
   \<and> float64 (2 ^ 53 + 1) = Some (2 ^ 53) \<and> float64 (2 ^ 53 + 3) = Some (2 ^ 53 + 4)"
  by code_simp

text \<open>
  On the doubles 0, 0.1 and 0.5 (step 0.1, margin 0) the row of 0.5 is sent to
  \<open>5 + 1 = 6\<close>; the wrapped cast sends the quotient \<open>2 ^ 31\<close> to \<open>- 2 ^ 31\<close>; a zero
  step is refused.
\<close>

lemma transform_value_examples:
  "transform_samples \<lparr>has_region = False, rows =
       [voxel 1 0 0 0, voxel 1 (3602879701896397 / 36028797018963968) 0 0,
        voxel 1 (1 / 2) 0 0]\<rparr> (\<lambda>i. 0)
     = Some (Inr \<lparr>has_region = False, rows =
         [voxel 1 1 1 1, voxel 1 2 1 1, voxel 1 6 1 1]\<rparr>)
   \<and> transform_value 1 1 (2 ^ 31) = Inr (- (2 ^ 31) + 1)
   \<and> transform_value 0 1 5 = Inl ValueError"
  by code_simp

text \<open>
  The table and the margins 3, 4, 5 of
  \<^verbatim>\<open>test_transform_sample_voxels_with_margin_no_reference\<close>: on coordinates that are
  multiples of the steps 2, 3 and 10 the transform gives the expected integer grid.
\<close>

lemma transform_samples_on_grid:
  "transform_samples \<lparr>has_region = False, rows =
       [voxel 1 0 3 10, voxel 2 2 15 40, voxel 3 6 6 20, voxel 4 4 12 50, voxel 5 8 9 30,
        voxel 6 10 18 60]\<rparr> (\<lambda>i. case i of X \<Rightarrow> 3 | Y \<Rightarrow> 4 | Z \<Rightarrow> 5)
     = Some (Inr \<lparr>has_region = False, rows =
       [voxel 1 4 5 6, voxel 2 5 9 9, voxel 3 7 6 7, voxel 4 6 8 10, voxel 5 8 7 8,
        voxel 6 9 10 11]\<rparr>)"
  by code_simp

text \<open>
  Claim C3 does not hold of the source. On the x coordinates 1 and 3 (step 2, margin 0)
  the transformed coordinates are \<open>1/2\<close> and \<open>3/2\<close>: they are not integers, and the
  minimum is \<open>1/2\<close> and not \<open>margin + 1 = 1\<close>, since the offset subtracts the unrounded
  quotient \<open>min / step\<close> while the cast rounds the quotient of each row. On the
  x coordinates \<open>-1\<close> and 1 both rows are sent to \<open>3/2\<close>: the cast to \<^verbatim>\<open>int32\<close> rounds
  \<open>-1/2\<close> to 0, where \<open>floor(raw / step) + offset\<close> is \<open>1/2\<close>.
\<close>

theorem transform_is_not_floor_based:
  "transform_samples \<lparr>has_region = False, rows = [voxel 1 1 0 0, voxel 1 3 0 0]\<rparr> (\<lambda>i. 0)
     = Some (Inr \<lparr>has_region = False, rows = [voxel 1 (1 / 2) 1 1, voxel 1 (3 / 2) 1 1]\<rparr>)
   \<and> get_step_size [1, 3] = 2
   \<and> Min (set (column X
         \<lparr>has_region = False, rows = [voxel 1 (1 / 2) 1 1, voxel 1 (3 / 2) 1 1]\<rparr>)) = 1 / 2
   \<and> (1 / 2 :: rat) \<noteq> of_int 0 + 1
   \<and> transform_samples \<lparr>has_region = False, rows = [voxel 1 (- 1) 0 0, voxel 1 1 0 0]\<rparr> (\<lambda>i. 0)
     = Some (Inr \<lparr>has_region = False, rows = [voxel 1 (3 / 2) 1 1, voxel 1 (3 / 2) 1 1]\<rparr>)
   \<and> get_step_size [- 1, 1] = 2
   \<and> of_int \<lfloor>- 1 / 2 :: rat\<rfloor> + (- (- 1 / 2) + of_int 0 + 1) = (1 / 2 :: rat)
   \<and> (3 / 2 :: rat) \<noteq> 1 / 2"
proof -
  have "transform_samples \<lparr>has_region = False, rows = [voxel 1 1 0 0, voxel 1 3 0 0]\<rparr> (\<lambda>i. 0)
     = Some (Inr \<lparr>has_region = False, rows = [voxel 1 (1 / 2) 1 1, voxel 1 (3 / 2) 1 1]\<rparr>)"
    by code_simp
  moreover have "get_step_size [1, 3] = 2"
    by (simp add: get_step_size_def)
  moreover have "Min (set (column X
         \<lparr>has_region = False, rows = [voxel 1 (1 / 2) 1 1, voxel 1 (3 / 2) 1 1]\<rparr>)) = 1 / 2"
    by (simp add: column_def voxel_def)
  moreover have "transform_samples
       \<lparr>has_region = False, rows = [voxel 1 (- 1) 0 0, voxel 1 1 0 0]\<rparr> (\<lambda>i. 0)
     = Some (Inr \<lparr>has_region = False, rows = [voxel 1 (3 / 2) 1 1, voxel 1 (3 / 2) 1 1]\<rparr>)"
    by code_simp
  moreover have "get_step_size [- 1, 1] = 2"
    by (simp add: get_step_size_def)
  moreover have "of_int \<lfloor>- 1 / 2 :: rat\<rfloor> + (- (- 1 / 2) + of_int 0 + 1) = (1 / 2 :: rat)"
    by code_simp
  ultimately show ?thesis by simp
qed

end
